theory Spec2Isabelle
  imports Main "HOL-Library.Word"
begin

section \<open>grpcwebproxy: a shallow embedding of main.go\<close>

text \<open>
  The program is one Go file. Its own functions are \<open>syncViper\<close>, \<open>main\<close>, \<open>rootRun\<close>,
  \<open>NewGrpcWebServer\<close>, \<open>NewGrpcProxyServer\<close> (with the \<open>director\<close> closure),
  \<open>NewUpstreamConnection\<close>, \<open>NewAllowedOriginsFunc\<close>, \<open>MustGetBool\<close> and
  \<open>MustGetString\<close>. Everything else is a call into the Go standard library or into a
  dependency; each such call is a definition of its own below, named as in the source and
  described by the behaviour its package documents, or a field of the record \<open>env\<close> where
  the result depends on the world outside the process (the network, the file system, the
  process environment).

  Go strings are byte strings and are \<^typ>\<open>string\<close> here. A Go \<open>error\<close> is the message
  it carries.
\<close>

type_synonym error = string

subsection \<open>The CORS gate (main.go, lines 169 to 179, and line 81)\<close>

text \<open>
  \<open>stringz.SliceEqual\<close> compares two string slices by length and then element by element;
  \<open>stringz.SliceContains\<close> scans the slice for an element equal to the string.
\<close>

fun SliceEqual :: "string list \<Rightarrow> string list \<Rightarrow> bool" where
  "SliceEqual [] [] = True"
| "SliceEqual (x # xs) (y # ys) = (if x \<noteq> y then False else SliceEqual xs ys)"
| "SliceEqual _ _ = False"

fun SliceContains :: "string list \<Rightarrow> string \<Rightarrow> bool" where
  "SliceContains [] x = False"
| "SliceContains (y # ys) x = (if x = y then True else SliceContains ys x)"

text \<open>
  \<open>NewAllowedOriginsFunc(urls)\<close> returns one of two closures. The closure is the
  function of the origin that remains after applying the definition to \<open>urls\<close>.
\<close>

definition NewAllowedOriginsFunc :: "string list \<Rightarrow> string \<Rightarrow> bool" where
  "NewAllowedOriginsFunc urls =
     (if SliceEqual urls [''''] then (\<lambda>_. True)
      else (\<lambda>origin. SliceContains urls origin))"

text \<open>
  \<open>strings.Split(s, ",")\<close> as \<open>rootRun\<close> calls it, with the one-byte separator taken as a
  character: the pieces of \<open>s\<close> between the separators, one more than there are
  separators. \<open>cur\<close> holds the piece being read, latest byte first.
\<close>

fun Split_from :: "string \<Rightarrow> char \<Rightarrow> string \<Rightarrow> string list" where
  "Split_from cur sep [] = [rev cur]"
| "Split_from cur sep (c # cs) =
     (if c = sep then rev cur # Split_from [] sep cs else Split_from (c # cur) sep cs)"

definition Split :: "string \<Rightarrow> char \<Rightarrow> string list" where
  "Split s sep = Split_from [] sep s"

text \<open>Line 81: the allow-list \<open>rootRun\<close> hands to \<open>NewGrpcWebServer\<close>.\<close>

definition origins_of :: "string \<Rightarrow> string list" where
  "origins_of allowed = Split allowed (CHR '','')"

subsection \<open>Metadata, contexts and the heap\<close>

text \<open>
  \<open>metadata.MD\<close> is \<open>map[string][]string\<close>: every key has its list of values, in order.
  A Go map is a reference: two variables can name one map object, and \<open>delete\<close> changes
  the object for both. The heap holds the map objects; an \<open>MD\<close> value is \<open>nil\<close>
  (\<open>None\<close>) or the address of a map object.
\<close>

type_synonym MD = "string \<rightharpoonup> string list"

type_synonym addr = nat

record heap =
  cells :: "addr \<Rightarrow> MD"
  fresh :: addr

text \<open>The entries of an \<open>MD\<close> value; ranging over a nil map yields none.\<close>

definition entries :: "heap \<Rightarrow> addr option \<Rightarrow> MD" where
  "entries h md = (case md of None \<Rightarrow> Map.empty | Some a \<Rightarrow> cells h a)"

text \<open>
  A \<open>context.Context\<close> is \<open>context.Background()\<close> or is derived from a parent by
  \<open>WithValue\<close>, \<open>WithDeadline\<close> or \<open>WithCancel\<close>. Its methods look through the
  chain: \<open>Value\<close> finds the nearest value stored under the key, \<open>Deadline\<close> is the
  earliest deadline set on the chain, \<open>Done\<close> fires when one of the cancel functions of
  the chain is called. Times and cancel functions are numbered.
\<close>

datatype ctxkey = mdIncomingKey | mdOutgoingKey | otherKey string

datatype ctxval = MDValue "addr option" | OtherValue string

datatype "context" =
    Background
  | WithValue "context" ctxkey ctxval
  | WithDeadline "context" nat
  | WithCancel "context" nat

fun Value :: "context \<Rightarrow> ctxkey \<Rightarrow> ctxval option" where
  "Value Background key = None"
| "Value (WithValue parent k v) key = (if key = k then Some v else Value parent key)"
| "Value (WithDeadline parent d) key = Value parent key"
| "Value (WithCancel parent c) key = Value parent key"

fun Deadline :: "context \<Rightarrow> nat option" where
  "Deadline Background = None"
| "Deadline (WithValue parent k v) = Deadline parent"
| "Deadline (WithDeadline parent d) =
     (case Deadline parent of
        None \<Rightarrow> Some d
      | Some cur \<Rightarrow> if cur < d then Some cur else Some d)"
| "Deadline (WithCancel parent c) = Deadline parent"

fun Done :: "context \<Rightarrow> nat list" where
  "Done Background = []"
| "Done (WithValue parent k v) = Done parent"
| "Done (WithDeadline parent d) = Done parent"
| "Done (WithCancel parent c) = c # Done parent"

text \<open>
  Package \<open>metadata\<close>. \<open>FromIncomingContext\<close> returns the metadata stored in the context
  under the package's incoming key, or \<open>nil, false\<close>. \<open>Copy\<close> allocates a new map with
  the entries of its receiver (a nil receiver gives a new empty map).
  \<open>NewOutgoingContext\<close> is \<open>context.WithValue\<close> under the outgoing key, and
  \<open>FromOutgoingContext\<close> is what the client side of the proxy reads back.
  \<open>delete\<close> is Go's builtin: it removes the key from the map object, and does nothing
  when the key is absent. The keys of a map the package builds are lower case; the model
  takes a map as it is stored, and compares keys as the builtin does, byte by byte.
\<close>

definition FromIncomingContext :: "context \<Rightarrow> addr option \<times> bool" where
  "FromIncomingContext ctx =
     (case Value ctx mdIncomingKey of
        Some (MDValue md) \<Rightarrow> (md, True)
      | _ \<Rightarrow> (None, False))"

definition FromOutgoingContext :: "context \<Rightarrow> addr option \<times> bool" where
  "FromOutgoingContext ctx =
     (case Value ctx mdOutgoingKey of
        Some (MDValue md) \<Rightarrow> (md, True)
      | _ \<Rightarrow> (None, False))"

definition Copy :: "addr option \<Rightarrow> heap \<Rightarrow> addr \<times> heap" where
  "Copy md h =
     (fresh h, h\<lparr>cells := (cells h)(fresh h := entries h md), fresh := Suc (fresh h)\<rparr>)"

definition delete :: "addr \<Rightarrow> string \<Rightarrow> heap \<Rightarrow> heap" where
  "delete md key h = h\<lparr>cells := (cells h)(md := (cells h md)(key := None))\<rparr>"

definition NewOutgoingContext :: "context \<Rightarrow> addr \<Rightarrow> context" where
  "NewOutgoingContext ctx md = WithValue ctx mdOutgoingKey (MDValue (Some md))"

subsection \<open>The codec, dial options and connections\<close>

type_synonym byte = "8 word"

record codec =
  Marshal :: "byte list \<Rightarrow> error + byte list"
  Unmarshal :: "byte list \<Rightarrow> error + byte list"

text \<open>
  Modelled from the spec: \<open>proxy.Codec()\<close>, the RawCodec of section 4.1. It is the codec
  of the grpc-proxy dependency; main.go only installs it, on the server (line 140) and on
  the upstream connection (line 165). The spec: marshal and unmarshal take a value that is
  always already a byte sequence, both are identity transforms, and the codec cannot fail.
\<close>

definition Codec :: codec where
  "Codec = \<lparr>Marshal = (\<lambda>v. Inr v), Unmarshal = (\<lambda>data. Inr data)\<rparr>"

datatype TransportCredentials = TransportCredentials string

datatype DialOption =
    WithTransportCredentials TransportCredentials
  | WithInsecure
  | WithCodec codec

datatype ClientConn = ClientConn (target: string) (dopts: "DialOption list")

text \<open>
  What the process cannot decide by itself: the expansion of environment references in a
  string (\<open>os.ExpandEnv\<close>), the certificate file (\<open>credentials.NewClientTLSFromFile\<close>),
  what building the name resolver says of the text of a target (nil for a target of the
  form host:port), and whether a server accepts connections at an address.
\<close>

record env =
  ExpandEnv :: "string \<Rightarrow> string"
  NewClientTLSFromFile :: "string \<Rightarrow> string \<Rightarrow> error + TransportCredentials"
  resolver_error :: "string \<Rightarrow> error option"
  upstream_listening :: "string \<Rightarrow> bool"

text \<open>
  \<open>grpc.Dial\<close> returns the connection and a nil error, or nil and the error. The source
  passes no \<open>grpc.WithBlock()\<close>, the only option that makes \<open>Dial\<close> wait for the
  connection, and none of the three options modelled is that one: \<open>Dial\<close> checks the
  options and the target, returns, and connects in the background. It fails when the
  options set no transport security or set it twice, and when the resolver cannot be built
  for the target. It never reads \<open>upstream_listening\<close>.
\<close>

fun insecure :: "DialOption list \<Rightarrow> bool" where
  "insecure [] = False"
| "insecure (WithInsecure # opts) = True"
| "insecure (opt # opts) = insecure opts"

fun has_TransportCredentials :: "DialOption list \<Rightarrow> bool" where
  "has_TransportCredentials [] = False"
| "has_TransportCredentials (WithTransportCredentials creds # opts) = True"
| "has_TransportCredentials (opt # opts) = has_TransportCredentials opts"

definition errNoTransportSecurity :: error where
  "errNoTransportSecurity =
     ''grpc: no transport security set (use grpc.WithInsecure() explicitly or set credentials)''"

definition errCredentialsConflict :: error where
  "errCredentialsConflict =
     ''grpc: transport credentials are set for an insecure connection (grpc.WithTransportCredentials() and grpc.WithInsecure() are both called)''"

definition Dial :: "env \<Rightarrow> string \<Rightarrow> DialOption list \<Rightarrow> ClientConn option \<times> error option" where
  "Dial e addr opts =
     (if \<not> insecure opts \<and> \<not> has_TransportCredentials opts then (None, Some errNoTransportSecurity)
      else if insecure opts \<and> has_TransportCredentials opts then (None, Some errCredentialsConflict)
      else
        (case resolver_error e addr of
           Some err \<Rightarrow> (None, Some (''failed to build resolver: '' @ err))
         | None \<Rightarrow> (Some (ClientConn addr opts), None)))"

text \<open>Lines 153 to 167.\<close>

definition NewUpstreamConnection ::
  "env \<Rightarrow> string \<Rightarrow> string \<Rightarrow> ClientConn option \<times> error option" where
  "NewUpstreamConnection e addr certPath =
     (let opts = [] in
      if certPath \<noteq> '''' then
        (case NewClientTLSFromFile e certPath '''' of
           Inl err \<Rightarrow> (None, Some err)
         | Inr creds \<Rightarrow>
             (let opts = opts @ [WithTransportCredentials creds];
                  opts = opts @ [WithCodec Codec]
              in Dial e addr opts))
      else
        (let opts = opts @ [WithInsecure];
             opts = opts @ [WithCodec Codec]
         in Dial e addr opts))"

subsection \<open>The director and the servers (lines 117 to 151)\<close>

type_synonym director_fn =
  "context \<Rightarrow> string \<Rightarrow> heap \<Rightarrow> (context \<times> ClientConn option \<times> error option) \<times> heap"

text \<open>
  The closure \<open>director\<close> of \<open>NewGrpcProxyServer\<close>, with the captured variable
  \<open>upstream\<close> as its first argument. The method name is ignored, as in the source.
\<close>

definition director :: "ClientConn option \<Rightarrow> director_fn" where
  "director upstream ctx method h =
     (let (metadataIn, ok) = FromIncomingContext ctx;
          (md, h) = Copy metadataIn h;
          h = delete md ''user-agent'' h;
          h = delete md ''connection'' h
      in ((NewOutgoingContext ctx md, upstream, None), h))"

datatype Logger = Production | Development

datatype Interceptor = ZapInterceptor Logger | PromInterceptor

record Server =
  CustomCodec :: codec
  UnknownServiceHandler :: director_fn
  UnaryServerChain :: "Interceptor list"
  StreamServerChain :: "Interceptor list"

definition NewGrpcProxyServer :: "Logger \<Rightarrow> ClientConn option \<Rightarrow> Server \<times> error option" where
  "NewGrpcProxyServer logger upstream =
     (\<lparr>CustomCodec = Codec,
       UnknownServiceHandler = director upstream,
       UnaryServerChain = [ZapInterceptor logger, PromInterceptor],
       StreamServerChain = [ZapInterceptor logger, PromInterceptor]\<rparr>, None)"

record WrappedGrpcServer =
  wrapped :: Server
  CorsForRegisteredEndpointsOnly :: bool
  OriginFunc :: "string \<Rightarrow> bool"

definition NewGrpcWebServer :: "Server \<Rightarrow> string list \<Rightarrow> WrappedGrpcServer \<times> error option" where
  "NewGrpcWebServer srv allowedOrigins =
     (\<lparr>wrapped = srv,
       CorsForRegisteredEndpointsOnly = False,
       OriginFunc = NewAllowedOriginsFunc allowedOrigins\<rparr>, None)"

subsection \<open>Flags (lines 51 to 62 and 181 to 195)\<close>

text \<open>
  The flag set of the command: \<open>main\<close> defines seven string flags and one bool flag.
  \<open>GetString\<close> and \<open>GetBool\<close> of pflag return an error when no flag has the name, and
  when the flag has the name but not the type asked for; otherwise the flag's value.
\<close>

datatype Flag = StringFlag string | BoolFlag bool

type_synonym Command = "string \<rightharpoonup> Flag"

definition main_flags :: Command where
  "main_flags =
     [''upstream-addr'' \<mapsto> StringFlag ''127.0.0.1:50051'',
      ''upstream-cert-path'' \<mapsto> StringFlag '''',
      ''web-addr'' \<mapsto> StringFlag '':80'',
      ''web-key-path'' \<mapsto> StringFlag '''',
      ''web-cert-path'' \<mapsto> StringFlag '''',
      ''web-allowed-origins'' \<mapsto> StringFlag '''',
      ''metrics-addr'' \<mapsto> StringFlag '':9090'',
      ''debug'' \<mapsto> BoolFlag False]"

definition GetString :: "Command \<Rightarrow> string \<Rightarrow> string \<times> error option" where
  "GetString cmd name =
     (case cmd name of
        None \<Rightarrow> ('''', Some (''flag accessed but not defined: '' @ name))
      | Some (BoolFlag b) \<Rightarrow> ('''', Some ''trying to get string value of flag of type bool'')
      | Some (StringFlag s) \<Rightarrow> (s, None))"

definition GetBool :: "Command \<Rightarrow> string \<Rightarrow> bool \<times> error option" where
  "GetBool cmd name =
     (case cmd name of
        None \<Rightarrow> (False, Some (''flag accessed but not defined: '' @ name))
      | Some (StringFlag s) \<Rightarrow> (False, Some ''trying to get bool value of flag of type string'')
      | Some (BoolFlag b) \<Rightarrow> (b, None))"

text \<open>
  A panic is \<open>Inl\<close> of its message, \<open>fmt.Sprintf("failed to find flag %s: %s", key, err)\<close>.
\<close>

definition MustGetBool :: "Command \<Rightarrow> string \<Rightarrow> string + bool" where
  "MustGetBool cmd key =
     (case GetBool cmd key of
        (val, Some err) \<Rightarrow> Inl (''failed to find flag '' @ key @ '': '' @ err)
      | (val, None) \<Rightarrow> Inr val)"

definition MustGetString :: "env \<Rightarrow> Command \<Rightarrow> string \<Rightarrow> string + string" where
  "MustGetString e cmd key =
     (case GetString cmd key of
        (val, Some err) \<Rightarrow> Inl (''failed to find flag '' @ key @ '': '' @ err)
      | (val, None) \<Rightarrow> Inr (ExpandEnv e val))"

subsection \<open>Startup (lines 64 to 115)\<close>

text \<open>
  \<open>rootRun\<close> ends in one of three ways: a panic, \<open>logger.Fatal\<close> (which logs the message
  with the error and exits the process), or the two servers listening. The web server is
  started in a goroutine of its own, which can panic in \<open>MustGetString\<close> as well.
\<close>

datatype Listener =
    ListenAndServeTLS string string string
  | ListenAndServe string

record Running =
  logger_of :: Logger
  grpcwebsrv :: WrappedGrpcServer
  websrv :: "string + Listener"
  metrics :: string

datatype Exit =
    is_Panic: Panic string
  | is_Fatal: Fatal Logger string error
  | is_Serve: Serve Running

text \<open>The goroutine of lines 87 to 110.\<close>

definition web_goroutine :: "env \<Rightarrow> Command \<Rightarrow> string + Listener" where
  "web_goroutine e cmd =
     (case MustGetString e cmd ''web-cert-path'' of Inl p \<Rightarrow> Inl p | Inr certPath \<Rightarrow>
     (case MustGetString e cmd ''web-key-path'' of Inl p \<Rightarrow> Inl p | Inr keyPath \<Rightarrow>
     (case MustGetString e cmd ''web-addr'' of Inl p \<Rightarrow> Inl p | Inr addr \<Rightarrow>
        if certPath \<noteq> '''' \<and> keyPath \<noteq> ''''
        then Inr (ListenAndServeTLS addr certPath keyPath)
        else Inr (ListenAndServe addr))))"

definition rootRun :: "env \<Rightarrow> Command \<Rightarrow> Exit" where
  "rootRun e cmd =
     (case MustGetBool cmd ''debug'' of Inl p \<Rightarrow> Panic p | Inr debug \<Rightarrow>
     (let logger = (if debug then Development else Production) in
     (case MustGetString e cmd ''upstream-addr'' of Inl p \<Rightarrow> Panic p | Inr addr \<Rightarrow>
     (case MustGetString e cmd ''upstream-cert-path'' of Inl p \<Rightarrow> Panic p | Inr certPath \<Rightarrow>
     (case NewUpstreamConnection e addr certPath of
        (upstream, Some err) \<Rightarrow> Fatal logger ''failed to connect to upstream'' err
      | (upstream, None) \<Rightarrow>
     (case NewGrpcProxyServer logger upstream of
        (srv, Some err) \<Rightarrow> Fatal logger ''failed to init grpc server'' err
      | (srv, None) \<Rightarrow>
     (case MustGetString e cmd ''web-allowed-origins'' of Inl p \<Rightarrow> Panic p | Inr allowed \<Rightarrow>
     (case NewGrpcWebServer srv (origins_of allowed) of
        (gws, Some err) \<Rightarrow> Fatal logger ''failed to init grpcweb server'' err
      | (gws, None) \<Rightarrow>
     (case MustGetString e cmd ''metrics-addr'' of Inl p \<Rightarrow> Panic p | Inr maddr \<Rightarrow>
        Serve \<lparr>logger_of = logger, grpcwebsrv = gws,
               websrv = web_goroutine e cmd, metrics = maddr\<rparr>)))))))))"

subsection \<open>Reading results, and inputs for the examples\<close>

text \<open>
  The metadata a context carries, read in a heap: what the director receives and what the
  upstream call is made with.
\<close>

definition incoming_md :: "context \<Rightarrow> heap \<Rightarrow> MD" where
  "incoming_md ctx h = entries h (fst (FromIncomingContext ctx))"

definition outgoing_md :: "context \<Rightarrow> heap \<Rightarrow> MD" where
  "outgoing_md ctx h = entries h (fst (FromOutgoingContext ctx))"

text \<open>The three results of a director call, and the heap after it.\<close>

definition ctx_of :: "(context \<times> ClientConn option \<times> error option) \<times> heap \<Rightarrow> context" where
  "ctx_of r = fst (fst r)"

definition conn_of :: "(context \<times> ClientConn option \<times> error option) \<times> heap \<Rightarrow> ClientConn option" where
  "conn_of r = fst (snd (fst r))"

definition err_of :: "(context \<times> ClientConn option \<times> error option) \<times> heap \<Rightarrow> error option" where
  "err_of r = snd (snd (fst r))"

definition heap_of :: "(context \<times> ClientConn option \<times> error option) \<times> heap \<Rightarrow> heap" where
  "heap_of r = snd r"

text \<open>
  A command has the flags of \<open>main\<close> when each of the eight names is defined with the
  type \<open>main\<close> gives it; the values are whatever the command line and the environment set.
\<close>

fun same_type :: "Flag option \<Rightarrow> Flag option \<Rightarrow> bool" where
  "same_type (Some (StringFlag s)) (Some (StringFlag t)) = True"
| "same_type (Some (BoolFlag a)) (Some (BoolFlag b)) = True"
| "same_type _ _ = False"

definition flag_names :: "string list" where
  "flag_names =
     [''upstream-addr'', ''upstream-cert-path'', ''web-addr'', ''web-key-path'',
      ''web-cert-path'', ''web-allowed-origins'', ''metrics-addr'', ''debug'']"

definition has_flags_of_main :: "Command \<Rightarrow> bool" where
  "has_flags_of_main cmd = list_all (\<lambda>name. same_type (cmd name) (main_flags name)) flag_names"

text \<open>
  Two environments for the examples. In both, \<open>UPSTREAM\<close> is set to \<open>10.0.0.1:50051\<close> and
  no other variable is referred to; no certificate file exists; the targets are of the
  form host:port, for which the resolver is built without error. In \<open>env_up\<close> a server
  accepts connections at every address, in \<open>env_down\<close> at none.
\<close>

definition expand_example :: "string \<Rightarrow> string" where
  "expand_example s = (if s = ''$UPSTREAM'' then ''10.0.0.1:50051'' else s)"

definition no_cert :: "string \<Rightarrow> string \<Rightarrow> error + TransportCredentials" where
  "no_cert certFile serverNameOverride = Inl ''no such file or directory''"

definition resolver_built :: "string \<Rightarrow> error option" where
  "resolver_built addr = None"

definition all_listening :: "string \<Rightarrow> bool" where
  "all_listening addr = True"

definition none_listening :: "string \<Rightarrow> bool" where
  "none_listening addr = False"

definition env_up :: env where
  "env_up = \<lparr>ExpandEnv = expand_example, NewClientTLSFromFile = no_cert,
              resolver_error = resolver_built, upstream_listening = all_listening\<rparr>"

definition env_down :: env where
  "env_down = \<lparr>ExpandEnv = expand_example, NewClientTLSFromFile = no_cert,
                resolver_error = resolver_built, upstream_listening = none_listening\<rparr>"

text \<open>The flags of \<open>main\<close> with a certificate path given on the command line.\<close>

definition flags_with_cert :: Command where
  "flags_with_cert = main_flags(''upstream-cert-path'' \<mapsto> StringFlag ''/etc/upstream.pem'')"

text \<open>
  A heap with one map object, the metadata of a browser call, and a context carrying it
  with a deadline and a cancel function.
\<close>

definition browser_md :: MD where
  "browser_md =
     [''user-agent'' \<mapsto> [''grpc-web-javascript/0.1''],
      ''connection'' \<mapsto> [''keep-alive''],
      ''x-trace'' \<mapsto> [''b'', ''a'', ''b'']]"

definition heap0 :: heap where
  "heap0 = \<lparr>cells = (\<lambda>a. if a = 0 then browser_md else Map.empty), fresh = 1\<rparr>"

definition ctx0 :: "context" where
  "ctx0 = WithDeadline (WithCancel (WithValue Background mdIncomingKey (MDValue (Some 0))) 7) 100"


section \<open>Properties\<close>

subsection \<open>The library functions compute equality and membership\<close>

lemma SliceEqual_iff: "SliceEqual xs ys \<longleftrightarrow> xs = ys"
  by (induction xs ys rule: SliceEqual.induct) auto

lemma SliceContains_iff: "SliceContains ys x \<longleftrightarrow> x \<in> set ys"
  by (induction ys) auto

lemma allow_all_branch: "NewAllowedOriginsFunc [''''] origin"
  by (simp add: NewAllowedOriginsFunc_def)

lemma membership_branch:
  "urls \<noteq> [''''] \<Longrightarrow> NewAllowedOriginsFunc urls origin = (origin \<in> set urls)"
  by (simp add: NewAllowedOriginsFunc_def SliceEqual_iff SliceContains_iff)

lemma Split_from_no_sep:
  "sep \<notin> set s \<Longrightarrow> Split_from cur sep s = [rev cur @ s]"
  by (induction s arbitrary: cur) auto

lemma Split_from_length:
  "length (Split_from cur sep s) = Suc (length (filter (\<lambda>c. c = sep) s))"
  by (induction s arbitrary: cur) auto

lemma Split_single_empty: "Split s sep = [''''] \<longleftrightarrow> s = ''''"
proof
  assume h: "Split s sep = ['''']"
  have "length (Split s sep) = Suc (length (filter (\<lambda>c. c = sep) s))"
    by (simp add: Split_def Split_from_length)
  with h have "filter (\<lambda>c. c = sep) s = []" by simp
  then have "sep \<notin> set s" by (auto simp: filter_empty_conv)
  then have "Split s sep = [s]" by (simp add: Split_def Split_from_no_sep)
  with h show "s = ''''" by simp
next
  assume "s = ''''"
  then show "Split s sep = ['''']" by (simp add: Split_def)
qed

lemma some_origin_outside: "\<exists>origin::string. origin \<notin> set urls"
proof -
  have "infinite (UNIV :: string set)" by (rule infinite_UNIV_listI)
  moreover have "finite (set urls)" by simp
  ultimately show ?thesis by (rule ex_new_if_finite)
qed

subsection \<open>The CORS gate\<close>

text \<open>
  Claim C9. \<open>NewAllowedOriginsFunc\<close> applied to a list of zero elements returns a
  predicate that is false for every origin string: the allow-all branch needs the list to
  be the one-element list of the empty string, and nothing is a member of an empty list.
\<close>

theorem zero_element_list_rejects_every_origin:
  "NewAllowedOriginsFunc [] origin = False"
  by (simp add: NewAllowedOriginsFunc_def)

text \<open>
  Claim C3. \<open>NewAllowedOriginsFunc\<close> returns a predicate true of every origin exactly
  when the list is the one-element list of the empty string; for every other list it
  returns the membership predicate of that list. The one-element list of the empty string
  is what \<open>rootRun\<close> gets from splitting the configured string exactly when that string
  is empty.
\<close>

theorem allow_all_exactly_for_split_of_empty:
  "((\<forall>origin. NewAllowedOriginsFunc urls origin) \<longleftrightarrow> urls = ['''']) \<and>
   (urls \<noteq> [''''] \<longrightarrow> NewAllowedOriginsFunc urls = (\<lambda>origin. origin \<in> set urls)) \<and>
   (origins_of allowed = [''''] \<longleftrightarrow> allowed = '''')"
proof (intro conjI)
  show "(\<forall>origin. NewAllowedOriginsFunc urls origin) \<longleftrightarrow> urls = ['''']"
  proof
    assume all: "\<forall>origin. NewAllowedOriginsFunc urls origin"
    show "urls = ['''']"
    proof (rule ccontr)
      assume ne: "urls \<noteq> ['''']"
      obtain origin :: string where "origin \<notin> set urls"
        using some_origin_outside by blast
      with ne have "\<not> NewAllowedOriginsFunc urls origin"
        by (simp add: membership_branch)
      with all show False by blast
    qed
  next
    assume "urls = ['''']"
    then show "\<forall>origin. NewAllowedOriginsFunc urls origin"
      by (simp add: allow_all_branch)
  qed
next
  show "urls \<noteq> [''''] \<longrightarrow> NewAllowedOriginsFunc urls = (\<lambda>origin. origin \<in> set urls)"
    by (auto simp: membership_branch)
next
  show "origins_of allowed = [''''] \<longleftrightarrow> allowed = ''''"
    by (simp add: origins_of_def Split_single_empty)
qed

theorem allow_all_exactly_for_split_of_empty_witness:
  "[''https://a.test''] \<noteq> [''''] \<and>
   NewAllowedOriginsFunc [''https://a.test''] = (\<lambda>origin. origin \<in> set [''https://a.test''])"
  using allow_all_exactly_for_split_of_empty [of "[''https://a.test'']" "''''"] by simp

text \<open>
  Claim C2, as the spec states it, fails on the code: with the allow-list of zero elements
  the gate rejects the empty origin (and every other one).
\<close>

theorem empty_allow_list_not_allow_all: "\<not> NewAllowedOriginsFunc [] ''''"
  by (simp add: NewAllowedOriginsFunc_def)

text \<open>
  Claim C2, amended. The gate is true of every origin string, the empty one included, when
  the allow-list comes from the empty configured string, that is when it is the
  one-element list of the empty string. With the allow-list of the single origin
  \<open>https://a.test\<close> it is true of \<open>https://a.test\<close> and false of \<open>https://b.test\<close>.
  For every allow-list other than the one-element list of the empty string, the list of
  zero elements included, it is true of an origin exactly when the origin is an element of
  the list: exact string match, no wildcard and no suffix matching.
\<close>

theorem gate_allows_all_or_exact_members:
  "NewAllowedOriginsFunc (origins_of '''') origin \<and>
   NewAllowedOriginsFunc [''''] origin \<and>
   NewAllowedOriginsFunc [''https://a.test''] ''https://a.test'' \<and>
   \<not> NewAllowedOriginsFunc [''https://a.test''] ''https://b.test'' \<and>
   (urls \<noteq> [''''] \<longrightarrow> NewAllowedOriginsFunc urls origin = (origin \<in> set urls))"
  by (simp add: membership_branch origins_of_def Split_def allow_all_branch)

theorem gate_allows_all_or_exact_members_witness:
  "[''https://a.test'', ''*''] \<noteq> [''''] \<and>
   NewAllowedOriginsFunc [''https://a.test'', ''*''] ''https://a.test'' \<and>
   \<not> NewAllowedOriginsFunc [''https://a.test'', ''*''] ''https://a.test.evil.example'' \<and>
   \<not> NewAllowedOriginsFunc [''https://a.test'', ''*''] ''https://b.test''"
  using gate_allows_all_or_exact_members [of "''https://a.test''" "[''https://a.test'', ''*'']"]
        gate_allows_all_or_exact_members [of "''https://a.test.evil.example''" "[''https://a.test'', ''*'']"]
        gate_allows_all_or_exact_members [of "''https://b.test''" "[''https://a.test'', ''*'']"]
  by simp

subsection \<open>The director\<close>

lemma director_result:
  "director upstream ctx method h =
     ((WithValue ctx mdOutgoingKey (MDValue (Some (fresh h))), upstream, None),
      h\<lparr>cells := (cells h)(fresh h :=
            (incoming_md ctx h)(''user-agent'' := None, ''connection'' := None)),
        fresh := Suc (fresh h)\<rparr>)"
  by (simp add: director_def Copy_def delete_def NewOutgoingContext_def incoming_md_def
      split: prod.splits)

lemma outgoing_md_director:
  "outgoing_md (ctx_of (director upstream ctx method h)) (heap_of (director upstream ctx method h))
     = (incoming_md ctx h)(''user-agent'' := None, ''connection'' := None)"
  by (simp add: director_result ctx_of_def heap_of_def outgoing_md_def FromOutgoingContext_def
      entries_def)

lemma incoming_md_example: "incoming_md ctx0 heap0 = browser_md"
  by (simp add: incoming_md_def ctx0_def heap0_def FromIncomingContext_def entries_def)

text \<open>
  Claim C1. For every incoming metadata map, with or without the keys \<open>user-agent\<close> and
  \<open>connection\<close>, the outgoing context of the director carries a metadata map that has
  neither of the two keys, and that has every other key with the same list of values in
  the same order as the incoming map.
\<close>

theorem director_strips_only_transport_keys:
  "FromOutgoingContext (ctx_of (director upstream ctx method h)) = (Some (fresh h), True) \<and>
   outgoing_md (ctx_of (director upstream ctx method h))
               (heap_of (director upstream ctx method h)) ''user-agent'' = None \<and>
   outgoing_md (ctx_of (director upstream ctx method h))
               (heap_of (director upstream ctx method h)) ''connection'' = None \<and>
   (key \<noteq> ''user-agent'' \<and> key \<noteq> ''connection'' \<longrightarrow>
      outgoing_md (ctx_of (director upstream ctx method h))
                  (heap_of (director upstream ctx method h)) key
        = incoming_md ctx h key)"
  by (simp add: outgoing_md_director)
     (simp add: director_result ctx_of_def FromOutgoingContext_def)

theorem director_strips_only_transport_keys_witness:
  "''x-trace'' \<noteq> ''user-agent'' \<and> ''x-trace'' \<noteq> ''connection'' \<and>
   incoming_md ctx0 heap0 ''user-agent'' = Some [''grpc-web-javascript/0.1''] \<and>
   outgoing_md (ctx_of (director None ctx0 ''/pkg.Svc/Get'' heap0))
               (heap_of (director None ctx0 ''/pkg.Svc/Get'' heap0)) ''user-agent'' = None \<and>
   outgoing_md (ctx_of (director None ctx0 ''/pkg.Svc/Get'' heap0))
               (heap_of (director None ctx0 ''/pkg.Svc/Get'' heap0)) ''x-trace''
     = Some [''b'', ''a'', ''b'']"
  using director_strips_only_transport_keys [of None ctx0 "''/pkg.Svc/Get''" heap0 "''x-trace''"]
  by (simp add: incoming_md_example browser_md_def)

text \<open>
  Claim C4. For every context and every method name the director returns the connection
  it was configured with, the same one for every call. Its only effect is the copy of the
  metadata: the heap after the call has one more map object, and every other map object,
  the incoming metadata among them, is as it was. The director is a function of the
  context and the heap alone: none of its steps reads or writes anything else.
\<close>

theorem director_returns_configured_connection:
  "conn_of (director upstream ctx method h) = upstream \<and>
   conn_of (director upstream ctx' method' h') = conn_of (director upstream ctx method h) \<and>
   fresh (heap_of (director upstream ctx method h)) = Suc (fresh h) \<and>
   (a \<noteq> fresh h \<longrightarrow> cells (heap_of (director upstream ctx method h)) a = cells h a)"
  by (simp add: director_result conn_of_def heap_of_def)

theorem director_returns_configured_connection_witness:
  "(0::nat) \<noteq> fresh heap0 \<and>
   cells (heap_of (director (Some (ClientConn ''127.0.0.1:50051'' []))
                            ctx0 ''/pkg.Svc/Get'' heap0)) 0 = browser_md \<and>
   conn_of (director (Some (ClientConn ''127.0.0.1:50051'' [])) ctx0 ''/pkg.Svc/Get'' heap0)
     = Some (ClientConn ''127.0.0.1:50051'' [])"
  using director_returns_configured_connection
          [of "Some (ClientConn ''127.0.0.1:50051'' [])" ctx0 "''/pkg.Svc/Get''" heap0
              ctx0 "''''" heap0 0]
  by (simp add: heap0_def)

text \<open>
  Claim C5. The context the director returns is the incoming context with the outgoing
  metadata attached: it has the deadline and the cancellation of the incoming context, and
  every value of the incoming context except the one under the outgoing-metadata key.
\<close>

theorem director_context_keeps_deadline_and_cancellation:
  "ctx_of (director upstream ctx method h)
     = WithValue ctx mdOutgoingKey (MDValue (Some (fresh h))) \<and>
   Deadline (ctx_of (director upstream ctx method h)) = Deadline ctx \<and>
   Done (ctx_of (director upstream ctx method h)) = Done ctx \<and>
   (key \<noteq> mdOutgoingKey \<longrightarrow>
      Value (ctx_of (director upstream ctx method h)) key = Value ctx key)"
  by (simp add: director_result ctx_of_def)

theorem director_context_keeps_deadline_and_cancellation_witness:
  "mdIncomingKey \<noteq> mdOutgoingKey \<and>
   Deadline (ctx_of (director None ctx0 ''/pkg.Svc/Get'' heap0)) = Some 100 \<and>
   Done (ctx_of (director None ctx0 ''/pkg.Svc/Get'' heap0)) = [7] \<and>
   Value (ctx_of (director None ctx0 ''/pkg.Svc/Get'' heap0)) mdIncomingKey
     = Some (MDValue (Some 0))"
  using director_context_keeps_deadline_and_cancellation
          [of None ctx0 "''/pkg.Svc/Get''" heap0 mdIncomingKey]
  by (simp add: ctx0_def)

subsection \<open>Flags and startup\<close>

lemma same_type_StringFlag:
  "same_type x (Some (StringFlag d)) \<Longrightarrow> \<exists>s. x = Some (StringFlag s)"
  by (auto elim: same_type.elims)

lemma same_type_BoolFlag:
  "same_type x (Some (BoolFlag d)) \<Longrightarrow> \<exists>b. x = Some (BoolFlag b)"
  by (auto elim: same_type.elims)

lemma has_flags_string:
  assumes "has_flags_of_main cmd" and "name \<in> set flag_names" and "name \<noteq> ''debug''"
  shows "\<exists>s. cmd name = Some (StringFlag s)"
proof -
  from assms(1,2) have st: "same_type (cmd name) (main_flags name)"
    by (simp add: has_flags_of_main_def list_all_iff)
  from assms(2,3) obtain d where "main_flags name = Some (StringFlag d)"
    by (auto simp: flag_names_def main_flags_def)
  with st show ?thesis
    by (simp add: same_type_StringFlag)
qed

lemma has_flags_debug:
  assumes "has_flags_of_main cmd"
  shows "\<exists>b. cmd ''debug'' = Some (BoolFlag b)"
proof -
  from assms have "same_type (cmd ''debug'') (main_flags ''debug'')"
    by (simp add: has_flags_of_main_def flag_names_def)
  moreover have "main_flags ''debug'' = Some (BoolFlag False)"
    by (simp add: main_flags_def)
  ultimately show ?thesis
    by (simp add: same_type_BoolFlag)
qed

lemma MustGetString_StringFlag:
  "cmd key = Some (StringFlag s) \<Longrightarrow> MustGetString e cmd key = Inr (ExpandEnv e s)"
  by (simp add: MustGetString_def GetString_def)

lemma MustGetBool_BoolFlag:
  "cmd key = Some (BoolFlag b) \<Longrightarrow> MustGetBool cmd key = Inr b"
  by (simp add: MustGetBool_def GetBool_def)

text \<open>
  \<open>NewUpstreamConnection\<close> returns nil with an error, or a connection whose last dial
  option is the codec, with a nil error.
\<close>

lemma NewUpstreamConnection_result:
  "(\<exists>err. NewUpstreamConnection e addr certPath = (None, Some err)) \<or>
   (\<exists>opts. NewUpstreamConnection e addr certPath
              = (Some (ClientConn addr (opts @ [WithCodec Codec])), None))"
  by (auto simp: NewUpstreamConnection_def Dial_def Let_def split: sum.splits option.splits)

text \<open>With the flags it reads defined, \<open>rootRun\<close> is decided by the dial alone.\<close>

lemma rootRun_after_flags:
  assumes "cmd ''debug'' = Some (BoolFlag debug)"
    and "cmd ''upstream-addr'' = Some (StringFlag a)"
    and "cmd ''upstream-cert-path'' = Some (StringFlag c)"
    and "cmd ''web-allowed-origins'' = Some (StringFlag w)"
    and "cmd ''metrics-addr'' = Some (StringFlag m)"
  shows "rootRun e cmd =
     (case NewUpstreamConnection e (ExpandEnv e a) (ExpandEnv e c) of
        (upstream, Some err) \<Rightarrow>
           Fatal (if debug then Development else Production) ''failed to connect to upstream'' err
      | (upstream, None) \<Rightarrow>
           Serve \<lparr>logger_of = (if debug then Development else Production),
                  grpcwebsrv = fst (NewGrpcWebServer
                     (fst (NewGrpcProxyServer (if debug then Development else Production) upstream))
                     (origins_of (ExpandEnv e w))),
                  websrv = web_goroutine e cmd, metrics = ExpandEnv e m\<rparr>)"
  using assms
  by (simp add: rootRun_def MustGetString_StringFlag MustGetBool_BoolFlag
      NewGrpcProxyServer_def NewGrpcWebServer_def Let_def split: prod.splits option.splits)

text \<open>A process that serves has a director that closes over a connection that is not nil.\<close>

lemma rootRun_Serve_handler:
  assumes "rootRun e cmd = Serve r"
  shows "\<exists>conn. UnknownServiceHandler (wrapped (grpcwebsrv r)) = director (Some conn)"
proof -
  from assms have "\<exists>upstream addr certPath.
      NewUpstreamConnection e addr certPath = (upstream, None) \<and>
      UnknownServiceHandler (wrapped (grpcwebsrv r)) = director upstream"
    by (auto simp: rootRun_def NewGrpcProxyServer_def NewGrpcWebServer_def Let_def
        split: sum.splits prod.splits option.splits) blast
  then obtain upstream addr certPath where
    nil_err: "NewUpstreamConnection e addr certPath = (upstream, None)" and
    h: "UnknownServiceHandler (wrapped (grpcwebsrv r)) = director upstream"
    by blast
  from nil_err NewUpstreamConnection_result [of e addr certPath]
  obtain conn where "upstream = Some conn"
    by auto
  with h show ?thesis by auto
qed

text \<open>
  The dial of \<open>NewUpstreamConnection\<close>, branch by branch: the options always set
  exactly one kind of transport security, so only the resolver can make it fail.
\<close>

lemma NewUpstreamConnection_insecure:
  "NewUpstreamConnection e addr '''' =
     (case resolver_error e addr of
        Some err \<Rightarrow> (None, Some (''failed to build resolver: '' @ err))
      | None \<Rightarrow> (Some (ClientConn addr [WithInsecure, WithCodec Codec]), None))"
  by (simp add: NewUpstreamConnection_def Dial_def split: option.splits)

lemma NewUpstreamConnection_cert:
  "certPath \<noteq> '''' \<Longrightarrow> NewUpstreamConnection e addr certPath =
     (case NewClientTLSFromFile e certPath '''' of
        Inl err \<Rightarrow> (None, Some err)
      | Inr creds \<Rightarrow>
          (case resolver_error e addr of
             Some err \<Rightarrow> (None, Some (''failed to build resolver: '' @ err))
           | None \<Rightarrow>
               (Some (ClientConn addr [WithTransportCredentials creds, WithCodec Codec]), None)))"
  by (simp add: NewUpstreamConnection_def Dial_def split: sum.splits option.splits)

lemma NewUpstreamConnection_error_iff:
  "snd (NewUpstreamConnection e addr certPath) \<noteq> None \<longleftrightarrow>
     (certPath \<noteq> '''' \<and> isl (NewClientTLSFromFile e certPath '''')) \<or>
     resolver_error e addr \<noteq> None"
proof (cases "certPath = ''''")
  case True
  then show ?thesis
    by (simp add: NewUpstreamConnection_insecure split: option.splits)
next
  case False
  then show ?thesis
    by (auto simp: NewUpstreamConnection_cert split: sum.splits option.splits)
qed

text \<open>Nothing at startup depends on whether a server accepts connections.\<close>

lemma MustGetString_ignores_listening:
  "MustGetString (e\<lparr>upstream_listening := listening\<rparr>) cmd key = MustGetString e cmd key"
  by (simp add: MustGetString_def split: prod.splits option.splits)

lemma Dial_ignores_listening:
  "Dial (e\<lparr>upstream_listening := listening\<rparr>) addr opts = Dial e addr opts"
  by (simp add: Dial_def)

lemma NewUpstreamConnection_ignores_listening:
  "NewUpstreamConnection (e\<lparr>upstream_listening := listening\<rparr>) addr certPath
     = NewUpstreamConnection e addr certPath"
  unfolding NewUpstreamConnection_def Dial_ignores_listening by simp

lemma web_goroutine_ignores_listening:
  "web_goroutine (e\<lparr>upstream_listening := listening\<rparr>) cmd = web_goroutine e cmd"
  unfolding web_goroutine_def MustGetString_ignores_listening by (rule refl)

lemma rootRun_ignores_listening:
  "rootRun (e\<lparr>upstream_listening := listening\<rparr>) cmd = rootRun e cmd"
  unfolding rootRun_def MustGetString_ignores_listening
    NewUpstreamConnection_ignores_listening web_goroutine_ignores_listening
  by (rule refl)

text \<open>
  Claim C6, as stated, fails on the code: with the flags of \<open>main\<close> and no server
  accepting connections at the upstream address, \<open>NewUpstreamConnection\<close> returns a
  connection and a nil error, and \<open>rootRun\<close> serves.
\<close>

theorem unreachable_upstream_is_not_fatal:
  "\<not> upstream_listening env_down ''127.0.0.1:50051'' \<and>
   MustGetString env_down main_flags ''upstream-addr'' = Inr ''127.0.0.1:50051'' \<and>
   MustGetString env_down main_flags ''upstream-cert-path'' = Inr '''' \<and>
   NewUpstreamConnection env_down ''127.0.0.1:50051'' ''''
     = (Some (ClientConn ''127.0.0.1:50051'' [WithInsecure, WithCodec Codec]), None) \<and>
   is_Serve (rootRun env_down main_flags)"
  by (simp add: rootRun_def MustGetBool_def GetBool_def MustGetString_def GetString_def
      main_flags_def env_down_def expand_example_def none_listening_def resolver_built_def
      NewUpstreamConnection_def Dial_def NewGrpcProxyServer_def NewGrpcWebServer_def)

text \<open>
  Claim C6, amended. Let the command have the flags of \<open>main\<close>, and let \<open>addr\<close> and
  \<open>certPath\<close> be what \<open>rootRun\<close> reads for the upstream. \<open>NewUpstreamConnection\<close>
  returns an error that is not nil exactly when a certificate path is given and the
  certificate cannot be loaded, or the dial rejects the target. Whenever it returns such
  an error it returns no connection, and \<open>rootRun\<close> ends in \<open>logger.Fatal\<close> with
  the message \<open>failed to connect to upstream\<close> and never serves. Whenever it returns a
  nil error, \<open>rootRun\<close> goes on to serve. The dial does not wait for the connection:
  what \<open>NewUpstreamConnection\<close> returns and how \<open>rootRun\<close> ends are the same whether
  or not a server accepts connections at the upstream address.
\<close>

theorem startup_is_fatal_on_upstream_error_not_on_unreachable:
  assumes flags: "has_flags_of_main cmd"
    and addr: "MustGetString e cmd ''upstream-addr'' = Inr addr"
    and cert: "MustGetString e cmd ''upstream-cert-path'' = Inr certPath"
  shows "(snd (NewUpstreamConnection e addr certPath) \<noteq> None \<longleftrightarrow>
            (certPath \<noteq> '''' \<and> isl (NewClientTLSFromFile e certPath '''')) \<or>
            resolver_error e addr \<noteq> None) \<and>
         (snd (NewUpstreamConnection e addr certPath) \<noteq> None \<longrightarrow>
            fst (NewUpstreamConnection e addr certPath) = None \<and>
            (\<exists>logger err. rootRun e cmd = Fatal logger ''failed to connect to upstream'' err) \<and>
            \<not> is_Serve (rootRun e cmd)) \<and>
         (snd (NewUpstreamConnection e addr certPath) = None \<longrightarrow> is_Serve (rootRun e cmd)) \<and>
         NewUpstreamConnection (e\<lparr>upstream_listening := listening\<rparr>) addr certPath
           = NewUpstreamConnection e addr certPath \<and>
         rootRun (e\<lparr>upstream_listening := listening\<rparr>) cmd = rootRun e cmd"
proof -
  from flags obtain debug where d: "cmd ''debug'' = Some (BoolFlag debug)"
    using has_flags_debug by blast
  from flags obtain a where a: "cmd ''upstream-addr'' = Some (StringFlag a)"
    using has_flags_string [of cmd "''upstream-addr''"] by (auto simp: flag_names_def)
  from flags obtain c where c: "cmd ''upstream-cert-path'' = Some (StringFlag c)"
    using has_flags_string [of cmd "''upstream-cert-path''"] by (auto simp: flag_names_def)
  from flags obtain w where w: "cmd ''web-allowed-origins'' = Some (StringFlag w)"
    using has_flags_string [of cmd "''web-allowed-origins''"] by (auto simp: flag_names_def)
  from flags obtain m where m: "cmd ''metrics-addr'' = Some (StringFlag m)"
    using has_flags_string [of cmd "''metrics-addr''"] by (auto simp: flag_names_def)
  from addr a have ea: "ExpandEnv e a = addr"
    by (simp add: MustGetString_StringFlag)
  from cert c have ec: "ExpandEnv e c = certPath"
    by (simp add: MustGetString_StringFlag)
  note run = rootRun_after_flags [OF d a c w m, of e, unfolded ea ec]
  have nil_conn: "snd (NewUpstreamConnection e addr certPath) \<noteq> None \<longrightarrow>
        fst (NewUpstreamConnection e addr certPath) = None"
    using NewUpstreamConnection_result [of e addr certPath] by auto
  have fatal: "snd (NewUpstreamConnection e addr certPath) \<noteq> None \<longrightarrow>
        (\<exists>logger err. rootRun e cmd = Fatal logger ''failed to connect to upstream'' err) \<and>
        \<not> is_Serve (rootRun e cmd)"
    by (cases "NewUpstreamConnection e addr certPath") (auto simp: run)
  have serve: "snd (NewUpstreamConnection e addr certPath) = None \<longrightarrow> is_Serve (rootRun e cmd)"
    by (cases "NewUpstreamConnection e addr certPath") (simp add: run)
  from nil_conn fatal have fatal':
    "snd (NewUpstreamConnection e addr certPath) \<noteq> None \<longrightarrow>
       fst (NewUpstreamConnection e addr certPath) = None \<and>
       (\<exists>logger err. rootRun e cmd = Fatal logger ''failed to connect to upstream'' err) \<and>
       \<not> is_Serve (rootRun e cmd)"
    by blast
  note err_iff = NewUpstreamConnection_error_iff [of e addr certPath]
  note same_conn = NewUpstreamConnection_ignores_listening
                     [where e = e and listening = listening and addr = addr and certPath = certPath]
  note same_run = rootRun_ignores_listening [where e = e and listening = listening and cmd = cmd]
  from err_iff fatal' serve same_conn same_run show ?thesis
    by (intro conjI)
qed

theorem startup_is_fatal_on_upstream_error_not_on_unreachable_witness:
  "has_flags_of_main flags_with_cert \<and>
   MustGetString env_up flags_with_cert ''upstream-addr'' = Inr ''127.0.0.1:50051'' \<and>
   MustGetString env_up flags_with_cert ''upstream-cert-path'' = Inr ''/etc/upstream.pem'' \<and>
   upstream_listening env_up ''127.0.0.1:50051'' \<and>
   snd (NewUpstreamConnection env_up ''127.0.0.1:50051'' ''/etc/upstream.pem'') \<noteq> None \<and>
   \<not> is_Serve (rootRun env_up flags_with_cert) \<and>
   has_flags_of_main main_flags \<and>
   MustGetString env_down main_flags ''upstream-addr'' = Inr ''127.0.0.1:50051'' \<and>
   MustGetString env_down main_flags ''upstream-cert-path'' = Inr '''' \<and>
   \<not> upstream_listening env_down ''127.0.0.1:50051'' \<and>
   snd (NewUpstreamConnection env_down ''127.0.0.1:50051'' '''') = None \<and>
   is_Serve (rootRun env_down main_flags)"
proof -
  have f1: "has_flags_of_main flags_with_cert"
    by (simp add: has_flags_of_main_def flag_names_def flags_with_cert_def main_flags_def)
  have a1: "MustGetString env_up flags_with_cert ''upstream-addr'' = Inr ''127.0.0.1:50051''"
    by (simp add: MustGetString_def GetString_def flags_with_cert_def main_flags_def
        env_up_def expand_example_def)
  have c1: "MustGetString env_up flags_with_cert ''upstream-cert-path'' = Inr ''/etc/upstream.pem''"
    by (simp add: MustGetString_def GetString_def flags_with_cert_def main_flags_def
        env_up_def expand_example_def)
  have l1: "upstream_listening env_up ''127.0.0.1:50051''"
    by (simp add: env_up_def all_listening_def)
  have n1: "isl (NewClientTLSFromFile env_up ''/etc/upstream.pem'' '''')"
    by (simp add: env_up_def no_cert_def)
  have f2: "has_flags_of_main main_flags"
    by (simp add: has_flags_of_main_def flag_names_def main_flags_def)
  have a2: "MustGetString env_down main_flags ''upstream-addr'' = Inr ''127.0.0.1:50051''"
    by (simp add: MustGetString_def GetString_def main_flags_def env_down_def expand_example_def)
  have c2: "MustGetString env_down main_flags ''upstream-cert-path'' = Inr ''''"
    by (simp add: MustGetString_def GetString_def main_flags_def env_down_def expand_example_def)
  have l2: "\<not> upstream_listening env_down ''127.0.0.1:50051''"
    by (simp add: env_down_def none_listening_def)
  have r2: "resolver_error env_down ''127.0.0.1:50051'' = None"
    by (simp add: env_down_def resolver_built_def)
  from startup_is_fatal_on_upstream_error_not_on_unreachable [OF f1 a1 c1]
       startup_is_fatal_on_upstream_error_not_on_unreachable [OF f2 a2 c2]
       f1 a1 c1 l1 n1 f2 a2 c2 l2 r2
  show ?thesis by simp
qed

text \<open>
  Claim C7. For every byte payload, marshal and unmarshal of the proxy codec return the
  payload itself and never an error. The server \<open>NewGrpcProxyServer\<close> builds has this
  codec, and every connection \<open>NewUpstreamConnection\<close> returns was dialled with this
  codec as its last option, with or without a certificate: request and response bytes
  pass both legs unchanged.
\<close>

theorem proxy_codec_is_identity_on_both_legs:
  "Marshal Codec payload = Inr payload \<and>
   Unmarshal Codec payload = Inr payload \<and>
   CustomCodec (fst (NewGrpcProxyServer logger upstream)) = Codec \<and>
   (fst (NewUpstreamConnection e addr certPath) = Some conn \<longrightarrow>
      last (dopts conn) = WithCodec Codec)"
  using NewUpstreamConnection_result [of e addr certPath]
  by (auto simp: Codec_def NewGrpcProxyServer_def)

theorem proxy_codec_is_identity_on_both_legs_witness:
  "fst (NewUpstreamConnection env_up ''127.0.0.1:50051'' '''')
     = Some (ClientConn ''127.0.0.1:50051'' [WithInsecure, WithCodec Codec]) \<and>
   last (dopts (ClientConn ''127.0.0.1:50051'' [WithInsecure, WithCodec Codec]))
     = WithCodec Codec \<and>
   Marshal Codec [0x00, 0xFF, 0x80] = Inr [0x00, 0xFF, 0x80] \<and>
   Unmarshal Codec [] = Inr []"
proof -
  have c: "fst (NewUpstreamConnection env_up ''127.0.0.1:50051'' '''')
     = Some (ClientConn ''127.0.0.1:50051'' [WithInsecure, WithCodec Codec])"
    by (simp add: NewUpstreamConnection_def Dial_def env_up_def resolver_built_def)
  from proxy_codec_is_identity_on_both_legs
         [of "[0x00, 0xFF, 0x80]" Production None env_up "''127.0.0.1:50051''" "''''"
             "ClientConn ''127.0.0.1:50051'' [WithInsecure, WithCodec Codec]"]
       proxy_codec_is_identity_on_both_legs
         [of "[]" Production None env_up "''127.0.0.1:50051''" "''''"
             "ClientConn ''127.0.0.1:50051'' [WithInsecure, WithCodec Codec]"] c
  show ?thesis by simp
qed

text \<open>
  Claim C8. In a process that serves, the director returns for every context and every
  method name, the empty one included: the error is nil and the connection is not nil.
  For a context that carries no incoming metadata the outgoing metadata is the empty map.
  No step of the director can panic: \<open>FromIncomingContext\<close> gives a nil map when the
  context has none, \<open>Copy\<close> of a nil map is a new empty map, and \<open>delete\<close> of an absent
  key does nothing.
\<close>

theorem director_cannot_fail_a_call:
  assumes "rootRun e cmd = Serve r"
  shows "\<exists>conn.
           conn_of (UnknownServiceHandler (wrapped (grpcwebsrv r)) ctx method h) = Some conn \<and>
           err_of (UnknownServiceHandler (wrapped (grpcwebsrv r)) ctx method h) = None \<and>
           (FromIncomingContext ctx = (None, False) \<longrightarrow>
              outgoing_md (ctx_of (UnknownServiceHandler (wrapped (grpcwebsrv r)) ctx method h))
                          (heap_of (UnknownServiceHandler (wrapped (grpcwebsrv r)) ctx method h))
                = Map.empty)"
proof -
  from assms obtain conn where
    h: "UnknownServiceHandler (wrapped (grpcwebsrv r)) = director (Some conn)"
    using rootRun_Serve_handler by blast
  have "FromIncomingContext ctx = (None, False) \<longrightarrow> incoming_md ctx h = Map.empty"
    by (simp add: incoming_md_def entries_def)
  then show ?thesis
    unfolding h
    by (auto simp: outgoing_md_director) (simp_all add: director_result conn_of_def err_of_def)
qed

theorem director_cannot_fail_a_call_witness:
  "\<exists>r. rootRun env_up main_flags = Serve r \<and>
       FromIncomingContext Background = (None, False) \<and>
       (\<exists>conn. conn_of (UnknownServiceHandler (wrapped (grpcwebsrv r)) Background '''' heap0)
                 = Some conn) \<and>
       err_of (UnknownServiceHandler (wrapped (grpcwebsrv r)) Background '''' heap0) = None"
proof -
  obtain r where r: "rootRun env_up main_flags = Serve r"
    by (simp add: rootRun_def MustGetBool_def GetBool_def MustGetString_def GetString_def
        main_flags_def env_up_def expand_example_def NewUpstreamConnection_def Dial_def
        resolver_built_def NewGrpcProxyServer_def NewGrpcWebServer_def)
  have "FromIncomingContext Background = (None, False)"
    by (simp add: FromIncomingContext_def)
  with director_cannot_fail_a_call [OF r, of Background "''''" heap0] r
  show ?thesis by blast
qed

text \<open>
  Claim C10, as stated, fails on the code: \<open>debug\<close> is defined on the command, as a bool
  flag, and \<open>MustGetString\<close> of it panics.
\<close>

theorem MustGetString_panics_on_defined_bool_flag:
  "main_flags ''debug'' = Some (BoolFlag False) \<and>
   MustGetString env_up main_flags ''debug''
     = Inl ''failed to find flag debug: trying to get string value of flag of type bool''"
  by (simp add: main_flags_def MustGetString_def GetString_def)

text \<open>
  Claim C10, amended. The value of every string flag read through \<open>MustGetString\<close> is
  passed through \<open>os.ExpandEnv\<close> before it is returned, and \<open>MustGetString\<close> panics
  exactly when the flag lookup fails: when the named flag is not defined on the command,
  or is defined with the bool type.
\<close>

theorem MustGetString_expands_and_panics_on_lookup_error:
  "(cmd key = Some (StringFlag val) \<longrightarrow> MustGetString e cmd key = Inr (ExpandEnv e val)) \<and>
   ((\<exists>p. MustGetString e cmd key = Inl p) \<longleftrightarrow>
      (cmd key = None \<or> (\<exists>b. cmd key = Some (BoolFlag b))))"
  by (auto simp: MustGetString_def GetString_def split: option.splits Flag.splits)

theorem MustGetString_expands_and_panics_on_lookup_error_witness:
  "(main_flags(''upstream-addr'' \<mapsto> StringFlag ''$UPSTREAM'')) ''upstream-addr''
      = Some (StringFlag ''$UPSTREAM'') \<and>
   MustGetString env_up (main_flags(''upstream-addr'' \<mapsto> StringFlag ''$UPSTREAM''))
                 ''upstream-addr''
      = Inr ''10.0.0.1:50051''"
  using MustGetString_expands_and_panics_on_lookup_error
          [of "main_flags(''upstream-addr'' \<mapsto> StringFlag ''$UPSTREAM'')" "''upstream-addr''"
              "''$UPSTREAM''" env_up]
  by (simp add: env_up_def expand_example_def)

end
